theory Spec2Isabelle
  imports Main "HOL-Library.Word"
begin

unbundle bit_operations_syntax

section \<open>Data of the program and of the libraries it calls\<close>

text \<open>
  \<^verbatim>\<open>main.go\<close> is a single pass over the Go standard library. The functions of the
  repository (\<^verbatim>\<open>main\<close>, \<^verbatim>\<open>promptUser\<close>, \<^verbatim>\<open>GenerateRootCA\<close>, \<^verbatim>\<open>ExportToPEM\<close>)
  are embedded below statement by statement. The library functions they call are not part
  of the repository: their results are taken from a record \<open>stdlib\<close> of arbitrary functions,
  over which every theorem is universally quantified, and every call that touches the
  outside world (terminal, clock, entropy source, file system) is written to a trace in
  program order.
\<close>

type_synonym bytes = "8 word list"

text \<open>\<^verbatim>\<open>os.FileMode\<close> is a \<^verbatim>\<open>uint32\<close>; the source writes its modes in octal.\<close>

type_synonym FileMode = "32 word"

definition octal :: "nat list \<Rightarrow> FileMode" where
  "octal ds = of_nat (foldl (\<lambda>acc d. 8 * acc + d) 0 ds)"

text \<open>\<^verbatim>\<open>time.Time\<close>, as nanoseconds since the Unix epoch.\<close>

type_synonym Time = int

text \<open>
  Go's \<^verbatim>\<open>error\<close> values: one returned by a library call, or one built by
  \<^verbatim>\<open>fmt.Errorf\<close> from a format string and its arguments (\<^verbatim>\<open>%w\<close> wraps an error).
  The same argument type serves \<^verbatim>\<open>fmt.Printf\<close> and \<^verbatim>\<open>log.Fatalf\<close>.
\<close>

datatype fmtarg = ArgS string | ArgI int | ArgE error
  and error = LibError string | fmt_Errorf string "fmtarg list"

text \<open>The \<^verbatim>\<open>CAConfig\<close> struct of the source.\<close>

record CAConfig =
  CommonName :: string
  Organization :: string
  ValidityDays :: int
  KeyBitSize :: int
  CertOutputFile :: string
  KeyOutputFile :: string

text \<open>\<^verbatim>\<open>pkix.Name\<close>, with the two fields the source sets.\<close>

record pkix_Name =
  pkix_CommonName :: string
  pkix_Organization :: "string list"

text \<open>
  \<^verbatim>\<open>x509.KeyUsage\<close> is an \<^verbatim>\<open>int\<close> bit set; the constants are those of
  \<^verbatim>\<open>crypto/x509\<close> (\<^verbatim>\<open>1 << iota\<close>, in declaration order).
\<close>

type_synonym KeyUsage = int

definition KeyUsageDigitalSignature :: KeyUsage where "KeyUsageDigitalSignature = push_bit 0 1"
definition KeyUsageContentCommitment :: KeyUsage where "KeyUsageContentCommitment = push_bit 1 1"
definition KeyUsageKeyEncipherment :: KeyUsage where "KeyUsageKeyEncipherment = push_bit 2 1"
definition KeyUsageDataEncipherment :: KeyUsage where "KeyUsageDataEncipherment = push_bit 3 1"
definition KeyUsageKeyAgreement :: KeyUsage where "KeyUsageKeyAgreement = push_bit 4 1"
definition KeyUsageCertSign :: KeyUsage where "KeyUsageCertSign = push_bit 5 1"
definition KeyUsageCRLSign :: KeyUsage where "KeyUsageCRLSign = push_bit 6 1"
definition KeyUsageEncipherOnly :: KeyUsage where "KeyUsageEncipherOnly = push_bit 7 1"
definition KeyUsageDecipherOnly :: KeyUsage where "KeyUsageDecipherOnly = push_bit 8 1"

definition all_KeyUsages :: "KeyUsage list" where
  "all_KeyUsages =
     [KeyUsageDigitalSignature, KeyUsageContentCommitment, KeyUsageKeyEncipherment,
      KeyUsageDataEncipherment, KeyUsageKeyAgreement, KeyUsageCertSign, KeyUsageCRLSign,
      KeyUsageEncipherOnly, KeyUsageDecipherOnly]"

text \<open>
  \<^verbatim>\<open>x509.Certificate\<close>, with the fields the template of the source sets; every other
  field of the Go struct keeps its zero value.
\<close>

record Certificate =
  SerialNumber :: int
  Subject :: pkix_Name
  Issuer :: pkix_Name
  NotBefore :: Time
  NotAfter :: Time
  KeyUsage :: KeyUsage
  ExtKeyUsage :: "int list"
  BasicConstraintsValid :: bool
  IsCA :: bool
  MaxPathLen :: int
  MaxPathLenZero :: bool

text \<open>\<^verbatim>\<open>rsa.PublicKey\<close> and \<^verbatim>\<open>rsa.PrivateKey\<close> (which embeds its public key).\<close>

record rsa_PublicKey =
  rsa_N :: int
  rsa_E :: int

record rsa_PrivateKey =
  PublicKey :: rsa_PublicKey
  rsa_D :: int
  rsa_Primes :: "int list"

text \<open>\<^verbatim>\<open>pem.Block\<close>; a \<^verbatim>\<open>nil\<close> byte slice is \<open>None\<close>.\<close>

record pem_Block =
  pem_Type :: string
  pem_Bytes :: "bytes option"

text \<open>
  The results of the library calls. A Go function returning \<^verbatim>\<open>(v, err)\<close> is a
  function into \<open>error + 'a\<close> (\<open>Inl\<close> when \<^verbatim>\<open>err != nil\<close>); \<^verbatim>\<open>pem.EncodeToMemory\<close>
  returns \<^verbatim>\<open>nil\<close> (\<open>None\<close>) when it fails, and \<^verbatim>\<open>os.WriteFile\<close> and
  \<^verbatim>\<open>os.MkdirAll\<close> return only an error (\<open>None\<close> is \<^verbatim>\<open>nil\<close>). In one run each of these
  is called at most once with given arguments, so a function of the arguments covers every
  behaviour of the library, random or not.
\<close>

record stdlib =
  rsa_GenerateKey :: "int \<Rightarrow> error + rsa_PrivateKey"
  rand_Int :: "int \<Rightarrow> error + int"
  time_Now :: Time
  time_AddDate :: "Time \<Rightarrow> int \<Rightarrow> int \<Rightarrow> int \<Rightarrow> Time"
  x509_CreateCertificate ::
    "Certificate \<Rightarrow> Certificate \<Rightarrow> rsa_PublicKey \<Rightarrow> rsa_PrivateKey \<Rightarrow> error + bytes"
  x509_ParseCertificate :: "bytes \<Rightarrow> error + Certificate"
  x509_MarshalPKCS8PrivateKey :: "rsa_PrivateKey option \<Rightarrow> error + bytes"
  pem_EncodeToMemory :: "pem_Block \<Rightarrow> bytes option"
  os_WriteFile :: "string \<Rightarrow> bytes \<Rightarrow> FileMode \<Rightarrow> error option"
  os_MkdirAll :: "string \<Rightarrow> FileMode \<Rightarrow> error option"
  filepath_Join :: "string list \<Rightarrow> string"
  strings_TrimSpace :: "string \<Rightarrow> string"

text \<open>The calls that touch the outside world, as they appear in a trace.\<close>

datatype event =
    fmt_Println string
  | fmt_Print string
  | fmt_Printf string "fmtarg list"
  | reader_ReadString
  | call_rsa_GenerateKey int
  | call_rand_Int int
  | call_time_Now
  | call_x509_CreateCertificate Certificate Certificate rsa_PublicKey rsa_PrivateKey
  | call_os_WriteFile string bytes FileMode
  | call_os_MkdirAll string FileMode
  | log_Fatal string
  | log_Fatalf string "fmtarg list"

text \<open>\<^verbatim>\<open>new(big.Int).Lsh(x, n)\<close> on unbounded integers.\<close>

definition big_Lsh :: "int \<Rightarrow> nat \<Rightarrow> int" where
  "big_Lsh x n = push_bit n x"

section \<open>GenerateRootCA\<close>

text \<open>
  The Go function returns \<^verbatim>\<open>(certBytes []byte, key *rsa.PrivateKey, err error)\<close>; each
  component may be \<^verbatim>\<open>nil\<close> (\<open>None\<close>). The model returns the trace of the run with it.
\<close>

definition GenerateRootCA ::
  "stdlib \<Rightarrow> CAConfig \<Rightarrow> event list \<times> (bytes option \<times> rsa_PrivateKey option \<times> error option)"
where
  "GenerateRootCA L config =
    (let tr1 = [fmt_Println ''  Generating RSA private key...'',
                call_rsa_GenerateKey (KeyBitSize config)]
     in case rsa_GenerateKey L (KeyBitSize config) of
       Inl err \<Rightarrow>
         (tr1, (None, None, Some (fmt_Errorf ''failed to generate RSA key: %w'' [ArgE err])))
     | Inr privateKey \<Rightarrow>
        (let key = Some privateKey;
             serialNumberLimit = big_Lsh 1 128;
             tr2 = tr1 @ [fmt_Println ''  Creating certificate template...'',
                          call_rand_Int serialNumberLimit]
         in case rand_Int L serialNumberLimit of
           Inl err \<Rightarrow>
             (tr2, (None, None,
                    Some (fmt_Errorf ''failed to generate serial number: %w'' [ArgE err])))
         | Inr serialNumber \<Rightarrow>
            (let notBefore = time_Now L;
                 notAfter = time_AddDate L notBefore 0 0 (ValidityDays config);
                 template = \<lparr>
                   SerialNumber = serialNumber,
                   Subject = \<lparr> pkix_CommonName = CommonName config,
                               pkix_Organization = [Organization config] \<rparr>,
                   Issuer = \<lparr> pkix_CommonName = CommonName config,
                              pkix_Organization = [Organization config] \<rparr>,
                   NotBefore = notBefore,
                   NotAfter = notAfter,
                   KeyUsage = KeyUsageCertSign OR KeyUsageCRLSign,
                   ExtKeyUsage = [],
                   BasicConstraintsValid = True,
                   IsCA = True,
                   MaxPathLen = 1,
                   MaxPathLenZero = False \<rparr>;
                 tr3 = tr2 @ [call_time_Now,
                              fmt_Println ''  Signing the certificate...'',
                              call_x509_CreateCertificate template template
                                (PublicKey privateKey) privateKey]
             in case x509_CreateCertificate L template template
                       (PublicKey privateKey) privateKey of
               Inl err \<Rightarrow>
                 (tr3, (None, None,
                        Some (fmt_Errorf ''failed to create certificate: %w'' [ArgE err])))
             | Inr certBytes \<Rightarrow>
                (case x509_ParseCertificate L certBytes of
                   Inl err \<Rightarrow>
                     (tr3, (None, None,
                            Some (fmt_Errorf ''failed to parse generated certificate: %w''
                                    [ArgE err])))
                 | Inr _ \<Rightarrow> (tr3, (Some certBytes, key, None))))))"

section \<open>ExportToPEM\<close>

text \<open>The Go function returns only an \<^verbatim>\<open>error\<close>; \<open>None\<close> is \<^verbatim>\<open>nil\<close>.\<close>

definition ExportToPEM ::
  "stdlib \<Rightarrow> bytes option \<Rightarrow> rsa_PrivateKey option \<Rightarrow> string \<Rightarrow> string
     \<Rightarrow> event list \<times> error option"
where
  "ExportToPEM L certBytes privateKey certPath keyPath =
    (let tr1 = [fmt_Printf ''  Encoding certificate to PEM: %s\<newline>'' [ArgS certPath]]
     in case pem_EncodeToMemory L \<lparr> pem_Type = ''CERTIFICATE'', pem_Bytes = certBytes \<rparr> of
       None \<Rightarrow> (tr1, Some (fmt_Errorf ''failed to encode certificate to PEM'' []))
     | Some certPEM \<Rightarrow>
        (let tr2 = tr1 @ [call_os_WriteFile certPath certPEM (octal [0, 6, 4, 4])]
         in case os_WriteFile L certPath certPEM (octal [0, 6, 4, 4]) of
           Some err \<Rightarrow>
             (tr2, Some (fmt_Errorf ''failed to write certificate PEM file %q: %w''
                           [ArgS certPath, ArgE err]))
         | None \<Rightarrow>
            (let tr3 = tr2 @ [fmt_Printf ''  Encoding private key to PEM: %s\<newline>''
                               [ArgS keyPath]]
             in case x509_MarshalPKCS8PrivateKey L privateKey of
               Inl err \<Rightarrow>
                 (tr3, Some (fmt_Errorf ''failed to marshal private key to PKCS#8: %w''
                               [ArgE err]))
             | Inr keyBytes \<Rightarrow>
                (case pem_EncodeToMemory L
                        \<lparr> pem_Type = ''PRIVATE KEY'', pem_Bytes = Some keyBytes \<rparr> of
                   None \<Rightarrow>
                     (tr3, Some (fmt_Errorf ''failed to encode private key to PEM'' []))
                 | Some keyPEM \<Rightarrow>
                    (let tr4 = tr3 @ [call_os_WriteFile keyPath keyPEM (octal [0, 6, 0, 0])]
                     in case os_WriteFile L keyPath keyPEM (octal [0, 6, 0, 0]) of
                       Some err \<Rightarrow>
                         (tr4, Some (fmt_Errorf
                                       ''failed to write private key PEM file %q: %w''
                                       [ArgS keyPath, ArgE err]))
                     | None \<Rightarrow> (tr4, None))))))"

section \<open>promptUser and main\<close>

text \<open>
  Standard input is the list of strings that the successive calls of
  \<^verbatim>\<open>reader.ReadString('\n')\<close> return (the source drops the error of the call); at the end
  of the input the call returns the empty string.
\<close>

definition reader_next :: "string list \<Rightarrow> string \<times> string list" where
  "reader_next stdin = (case stdin of [] \<Rightarrow> ([], []) | l # ls \<Rightarrow> (l, ls))"

text \<open>
  The \<^verbatim>\<open>strconv.Atoi\<close> test at the end of \<^verbatim>\<open>promptUser\<close> has an empty body and no
  effect; it has no counterpart here.
\<close>

definition promptUser ::
  "stdlib \<Rightarrow> string list \<Rightarrow> string \<Rightarrow> string \<Rightarrow> event list \<times> string \<times> string list"
where
  "promptUser L stdin promptText defaultValue =
    (let (line, stdin') = reader_next stdin;
         input = strings_TrimSpace L line
     in ([fmt_Print promptText, reader_ReadString],
         if input = [] then defaultValue else input,
         stdin'))"

text \<open>
  The command line after \<^verbatim>\<open>flag.Parse\<close>: the value of each flag, the default where the
  flag is absent.
\<close>

record Flags =
  flag_cn :: string
  flag_org :: string
  flag_days :: int
  flag_bits :: int
  flag_out :: string
  flag_cert_name :: string
  flag_key_name :: string

definition defaultValidityDays :: int where "defaultValidityDays = 365 * 10"
definition defaultKeyBitSize :: int where "defaultKeyBitSize = 4096"
definition defaultCertFileName :: string where "defaultCertFileName = ''ca.crt''"
definition defaultKeyFileName :: string where "defaultKeyFileName = ''ca.key''"
definition defaultOutputDir :: string where "defaultOutputDir = ''.''"

text \<open>\<^verbatim>\<open>log.Fatal\<close> and \<^verbatim>\<open>log.Fatalf\<close> print and call \<^verbatim>\<open>os.Exit(1)\<close>.\<close>

datatype exit = Returned | Exit1

definition main :: "stdlib \<Rightarrow> Flags \<Rightarrow> string list \<Rightarrow> event list \<times> exit" where
  "main L flags stdin0 =
    (let tr0 = [fmt_Println ''Minimal Go Certificate Authority Generator'',
                fmt_Println ''----------------------------------------''];
         config = \<lparr> CommonName = flag_cn flags,
                    Organization = flag_org flags,
                    ValidityDays = flag_days flags,
                    KeyBitSize = flag_bits flags,
                    CertOutputFile = [],
                    KeyOutputFile = [] \<rparr>
     in case (if CommonName config = [] then
                (let (t, r, s) = promptUser L stdin0
                       ''Enter Common Name (CN) for the CA (e.g., 'My Dev Root CA'): '' [];
                     config = config\<lparr>CommonName := r\<rparr>
                 in if CommonName config = [] then
                      Inl (tr0 @ t @ [log_Fatal ''Error: Common Name cannot be empty.''])
                    else Inr (tr0 @ t, config, s))
              else Inr (tr0, config, stdin0)) of
       Inl tr \<Rightarrow> (tr, Exit1)
     | Inr (tr1, config, stdin1) \<Rightarrow>
        (let (tr2, config) =
               (if Organization config = [] then
                  (let (t, r, s) = promptUser L stdin1
                         ''Enter Organization (O) (optional, press Enter to skip): '' []
                   in (tr1 @ t, config\<lparr>Organization := r\<rparr>))
                else (tr1, config));
             tr3 = tr2 @
               (if KeyBitSize config \<noteq> 2048 \<and> KeyBitSize config \<noteq> 4096 then
                  [fmt_Printf
                     ''Warning: Recommended key sizes are 2048 or 4096. Using %d bits.\<newline>''
                     [ArgI (KeyBitSize config)]] @
                  (if KeyBitSize config < 2048 then
                     [fmt_Println
                        ''Warning: Key size less than 2048 bits is considered insecure.'']
                   else [])
                else [])
         in if ValidityDays config \<le> 0 then
              (tr3 @ [log_Fatalf ''Error: Validity days must be positive. Got %d.''
                        [ArgI (ValidityDays config)]], Exit1)
            else
             (let config = config\<lparr>
                    CertOutputFile := filepath_Join L [flag_out flags, flag_cert_name flags]\<rparr>;
                  config = config\<lparr>
                    KeyOutputFile := filepath_Join L [flag_out flags, flag_key_name flags]\<rparr>;
                  tr4 = tr3 @ [call_os_MkdirAll (flag_out flags) (octal [0, 7, 5, 5])]
              in case os_MkdirAll L (flag_out flags) (octal [0, 7, 5, 5]) of
                Some err \<Rightarrow>
                  (tr4 @ [log_Fatalf ''Error creating output directory %q: %v''
                            [ArgS (flag_out flags), ArgE err]], Exit1)
              | None \<Rightarrow>
                 (let tr5 = tr4 @
                        [fmt_Println ''\<newline>Generating Root CA...'',
                         fmt_Printf ''  Common Name: %s\<newline>'' [ArgS (CommonName config)]] @
                        (if Organization config \<noteq> [] then
                           [fmt_Printf ''  Organization: %s\<newline>''
                              [ArgS (Organization config)]]
                         else []) @
                        [fmt_Printf ''  Validity: %d days\<newline>'' [ArgI (ValidityDays config)],
                         fmt_Printf ''  Key Size: %d bits\<newline>'' [ArgI (KeyBitSize config)],
                         fmt_Printf ''  Output Cert: %s\<newline>'' [ArgS (CertOutputFile config)],
                         fmt_Printf ''  Output Key: %s\<newline>'' [ArgS (KeyOutputFile config)]];
                      (trg, certBytes, privateKey, err) = GenerateRootCA L config;
                      tr6 = tr5 @ trg
                  in case err of
                    Some err \<Rightarrow>
                      (tr6 @ [log_Fatalf ''Error generating CA: %v'' [ArgE err]], Exit1)
                  | None \<Rightarrow>
                     (let tr7 = tr6 @
                            [fmt_Println
                               ''CA certificate and private key generated successfully.'',
                             fmt_Println ''\<newline>Exporting to PEM format...''];
                          (tre, err) = ExportToPEM L certBytes privateKey
                                         (CertOutputFile config) (KeyOutputFile config);
                          tr8 = tr7 @ tre
                      in case err of
                        Some err \<Rightarrow>
                          (tr8 @ [log_Fatalf ''Error exporting files: %v'' [ArgE err]], Exit1)
                      | None \<Rightarrow>
                          (tr8 @
                           [fmt_Printf ''\<newline>Success!\<newline>'' [],
                            fmt_Printf ''  CA Certificate saved to: %s\<newline>''
                              [ArgS (CertOutputFile config)],
                            fmt_Printf
                              ''  CA Private Key saved to: %s (Keep this file secure!)\<newline>''
                              [ArgS (KeyOutputFile config)]],
                           Returned))))))"

section \<open>Reading a trace\<close>

text \<open>The calls of \<^verbatim>\<open>x509.CreateCertificate\<close> in a trace, with their arguments.\<close>

fun create_of ::
  "event \<Rightarrow> (Certificate \<times> Certificate \<times> rsa_PublicKey \<times> rsa_PrivateKey) list" where
  "create_of (call_x509_CreateCertificate t p pub priv) = [(t, p, pub, priv)]"
| "create_of _ = []"

definition CreateCertificate_calls ::
  "event list \<Rightarrow> (Certificate \<times> Certificate \<times> rsa_PublicKey \<times> rsa_PrivateKey) list" where
  "CreateCertificate_calls tr = concat (map create_of tr)"

text \<open>The certificate templates of a trace: the first argument of each such call.\<close>

definition templates :: "event list \<Rightarrow> Certificate list" where
  "templates tr = map fst (CreateCertificate_calls tr)"

text \<open>The calls of \<^verbatim>\<open>os.WriteFile\<close> in a trace: path, data and mode.\<close>

fun write_of :: "event \<Rightarrow> (string \<times> bytes \<times> FileMode) list" where
  "write_of (call_os_WriteFile path d m) = [(path, d, m)]"
| "write_of _ = []"

definition WriteFile_calls :: "event list \<Rightarrow> (string \<times> bytes \<times> FileMode) list" where
  "WriteFile_calls tr = concat (map write_of tr)"

text \<open>
  The paths a trace creates or writes in the file system: \<^verbatim>\<open>os.WriteFile\<close> and
  \<^verbatim>\<open>os.MkdirAll\<close> are the only calls of the program that change it.
\<close>

fun path_of :: "event \<Rightarrow> string list" where
  "path_of (call_os_WriteFile path d m) = [path]"
| "path_of (call_os_MkdirAll path m) = [path]"
| "path_of _ = []"

definition fs_paths :: "event list \<Rightarrow> string list" where
  "fs_paths tr = concat (map path_of tr)"

text \<open>The key sizes for which a trace asks \<^verbatim>\<open>rsa.GenerateKey\<close> for a key.\<close>

fun keygen_of :: "event \<Rightarrow> int list" where
  "keygen_of (call_rsa_GenerateKey bits) = [bits]"
| "keygen_of _ = []"

definition GenerateKey_calls :: "event list \<Rightarrow> int list" where
  "GenerateKey_calls tr = concat (map keygen_of tr)"

section \<open>A concrete library and configuration\<close>

text \<open>
  One behaviour of the library among all those the theorems cover, small enough to run
  the program on: a fixed textbook key, a fixed serial number, days of 86400 seconds.
\<close>

definition demo_key :: rsa_PrivateKey where
  "demo_key = \<lparr> PublicKey = \<lparr> rsa_N = 3233, rsa_E = 17 \<rparr>, rsa_D = 413, rsa_Primes = [61, 53] \<rparr>"

definition demo_parsed :: Certificate where
  "demo_parsed = \<lparr>
     SerialNumber = 0,
     Subject = \<lparr> pkix_CommonName = [], pkix_Organization = [] \<rparr>,
     Issuer = \<lparr> pkix_CommonName = [], pkix_Organization = [] \<rparr>,
     NotBefore = 0, NotAfter = 0, KeyUsage = 0, ExtKeyUsage = [],
     BasicConstraintsValid = False, IsCA = False, MaxPathLen = 0, MaxPathLenZero = False \<rparr>"

definition demo_lib :: stdlib where
  "demo_lib = \<lparr>
     rsa_GenerateKey =
       (\<lambda>bits. if bits < 1024 then Inl (LibError ''key too small'') else Inr demo_key),
     rand_Int = (\<lambda>m. if m \<le> 0 then Inl (LibError ''no entropy'') else Inr (987654321 mod m)),
     time_Now = 1700000000000000000,
     time_AddDate = (\<lambda>t y m d. t + (365 * y + 30 * m + d) * 86400000000000),
     x509_CreateCertificate =
       (\<lambda>t p pub priv. if pub = PublicKey priv then Inr [48, 130, 1, 10]
                        else Inl (LibError ''key mismatch'')),
     x509_ParseCertificate =
       (\<lambda>der. if der = [] then Inl (LibError ''malformed certificate'') else Inr demo_parsed),
     x509_MarshalPKCS8PrivateKey =
       (\<lambda>k. case k of None \<Rightarrow> Inl (LibError ''unknown key type'') | Some _ \<Rightarrow> Inr [48, 130, 2, 93]),
     pem_EncodeToMemory =
       (\<lambda>b. Some (map (\<lambda>c. of_nat (of_char c)) (pem_Type b) @
                   (case pem_Bytes b of None \<Rightarrow> [] | Some bs \<Rightarrow> bs))),
     os_WriteFile = (\<lambda>path d m. if path = [] then Some (LibError ''no such file'') else None),
     os_MkdirAll = (\<lambda>path m. if path = [] then Some (LibError ''no such directory'') else None),
     filepath_Join = (\<lambda>ps. case ps of [] \<Rightarrow> [] | p # qs \<Rightarrow> foldl (\<lambda>a b. a @ ''/'' @ b) p qs),
     strings_TrimSpace =
       (\<lambda>s. rev (dropWhile (\<lambda>c. c = CHR '' '' \<or> c = CHR 0x0A)
                   (rev (dropWhile (\<lambda>c. c = CHR '' '' \<or> c = CHR 0x0A) s)))) \<rparr>"

definition demo_config :: CAConfig where
  "demo_config = \<lparr>
     CommonName = ''My Test CA'',
     Organization = ''Test Org'',
     ValidityDays = 730,
     KeyBitSize = 4096,
     CertOutputFile = ''my_ca/ca.crt'',
     KeyOutputFile = ''my_ca/ca.key'' \<rparr>"

text \<open>A command line with every flag given.\<close>

definition demo_flags :: Flags where
  "demo_flags = \<lparr>
     flag_cn = ''My Test CA'', flag_org = ''Test Org'', flag_days = 730,
     flag_bits = defaultKeyBitSize, flag_out = ''my_ca'',
     flag_cert_name = defaultCertFileName, flag_key_name = defaultKeyFileName \<rparr>"

text \<open>
  The same library with a signing step that always fails, and a family of libraries indexed
  by the value \<open>w\<close> that the entropy source yields, which differ only in that value.
\<close>

definition demo_lib_no_sign :: stdlib where
  "demo_lib_no_sign =
     demo_lib\<lparr>x509_CreateCertificate := (\<lambda>t p pub priv. Inl (LibError ''signing failed''))\<rparr>"

definition demo_family :: "int \<Rightarrow> stdlib" where
  "demo_family w =
     demo_lib\<lparr>rand_Int := (\<lambda>m. if m \<le> 0 then Inl (LibError ''no entropy'') else Inr (w mod m))\<rparr>"

section \<open>The template and the signing call of GenerateRootCA\<close>

text \<open>
  The only call of \<^verbatim>\<open>x509.CreateCertificate\<close> in a run of \<^verbatim>\<open>GenerateRootCA\<close>: none
  when key or serial-number generation fails, and otherwise one, whose template and parent
  are the same struct.
\<close>

lemma CreateCertificate_calls_GenerateRootCA:
  "CreateCertificate_calls (fst (GenerateRootCA L config)) =
     (case rsa_GenerateKey L (KeyBitSize config) of
        Inl _ \<Rightarrow> []
      | Inr k \<Rightarrow>
         (case rand_Int L (big_Lsh 1 128) of
            Inl _ \<Rightarrow> []
          | Inr s \<Rightarrow>
             (let t = \<lparr> SerialNumber = s,
                        Subject = \<lparr> pkix_CommonName = CommonName config,
                                    pkix_Organization = [Organization config] \<rparr>,
                        Issuer = \<lparr> pkix_CommonName = CommonName config,
                                   pkix_Organization = [Organization config] \<rparr>,
                        NotBefore = time_Now L,
                        NotAfter = time_AddDate L (time_Now L) 0 0 (ValidityDays config),
                        KeyUsage = KeyUsageCertSign OR KeyUsageCRLSign,
                        ExtKeyUsage = [],
                        BasicConstraintsValid = True,
                        IsCA = True,
                        MaxPathLen = 1,
                        MaxPathLenZero = False \<rparr>
              in [(t, t, PublicKey k, k)])))"
  by (simp add: GenerateRootCA_def CreateCertificate_calls_def Let_def split: sum.splits)

lemma demo_run_succeeds:
  "snd (GenerateRootCA demo_lib demo_config) = (Some [48, 130, 1, 10], Some demo_key, None)"
  by (simp add: GenerateRootCA_def demo_lib_def demo_config_def big_Lsh_def Let_def)

text \<open>
  C1. A successful run of \<^verbatim>\<open>GenerateRootCA\<close> makes exactly one call of
  \<^verbatim>\<open>x509.CreateCertificate\<close>; the template is passed as both template and parent, its
  Issuer equals its Subject (the CommonName and Organization of the configuration), the
  public key passed is the one of the private key that signs, and the key and the bytes
  returned are that private key and the result of that call.
\<close>

theorem GenerateRootCA_self_signed:
  assumes "snd (GenerateRootCA L config) = (certBytes, key, None)"
  shows "\<exists>t priv der.
           CreateCertificate_calls (fst (GenerateRootCA L config)) =
             [(t, t, PublicKey priv, priv)] \<and>
           Issuer t = Subject t \<and>
           pkix_CommonName (Subject t) = CommonName config \<and>
           pkix_Organization (Subject t) = [Organization config] \<and>
           key = Some priv \<and>
           x509_CreateCertificate L t t (PublicKey priv) priv = Inr der \<and>
           certBytes = Some der"
proof (cases "rsa_GenerateKey L (KeyBitSize config)")
  case (Inl e)
  with assms show ?thesis by (simp add: GenerateRootCA_def)
next
  case key: (Inr k)
  show ?thesis
  proof (cases "rand_Int L (big_Lsh 1 128)")
    case (Inl e)
    with assms key show ?thesis by (simp add: GenerateRootCA_def Let_def)
  next
    case serial: (Inr s)
    from assms key serial show ?thesis
      by (auto simp: GenerateRootCA_def CreateCertificate_calls_def Let_def
          split: sum.splits)
  qed
qed

theorem GenerateRootCA_self_signed_witness:
  "snd (GenerateRootCA demo_lib demo_config) = (Some [48, 130, 1, 10], Some demo_key, None) \<and>
   (\<exists>t der. CreateCertificate_calls (fst (GenerateRootCA demo_lib demo_config)) =
              [(t, t, PublicKey demo_key, demo_key)] \<and>
            Issuer t = Subject t \<and>
            pkix_CommonName (Subject t) = ''My Test CA'' \<and>
            x509_CreateCertificate demo_lib t t (PublicKey demo_key) demo_key = Inr der)"
  using GenerateRootCA_self_signed [OF demo_run_succeeds] demo_run_succeeds
  by (auto simp: demo_config_def)

lemma GenerateRootCA_success_steps:
  assumes "snd (GenerateRootCA L config) = (certBytes, key, None)"
  shows "\<exists>k s. rsa_GenerateKey L (KeyBitSize config) = Inr k \<and>
               rand_Int L (big_Lsh 1 128) = Inr s"
proof (cases "rsa_GenerateKey L (KeyBitSize config)")
  case (Inl e)
  with assms show ?thesis by (simp add: GenerateRootCA_def)
next
  case key: (Inr k)
  show ?thesis
  proof (cases "rand_Int L (big_Lsh 1 128)")
    case (Inl e)
    with assms key show ?thesis by (simp add: GenerateRootCA_def Let_def)
  next
    case (Inr s)
    with key show ?thesis by simp
  qed
qed

lemma templates_GenerateRootCA:
  assumes "rsa_GenerateKey L (KeyBitSize config) = Inr k"
      and "rand_Int L (big_Lsh 1 128) = Inr s"
  shows "templates (fst (GenerateRootCA L config)) =
           [\<lparr> SerialNumber = s,
              Subject = \<lparr> pkix_CommonName = CommonName config,
                          pkix_Organization = [Organization config] \<rparr>,
              Issuer = \<lparr> pkix_CommonName = CommonName config,
                         pkix_Organization = [Organization config] \<rparr>,
              NotBefore = time_Now L,
              NotAfter = time_AddDate L (time_Now L) 0 0 (ValidityDays config),
              KeyUsage = KeyUsageCertSign OR KeyUsageCRLSign,
              ExtKeyUsage = [],
              BasicConstraintsValid = True,
              IsCA = True,
              MaxPathLen = 1,
              MaxPathLenZero = False \<rparr>]"
  using assms by (simp add: templates_def CreateCertificate_calls_GenerateRootCA Let_def)

lemma GenerateRootCA_template_built:
  assumes "snd (GenerateRootCA L config) = (certBytes, key, None) \<or>
           (rsa_GenerateKey L (KeyBitSize config) = Inr k \<and>
            rand_Int L (big_Lsh 1 128) = Inr s)"
  shows "\<exists>s. rand_Int L (big_Lsh 1 128) = Inr s \<and>
             templates (fst (GenerateRootCA L config)) =
               [\<lparr> SerialNumber = s,
                  Subject = \<lparr> pkix_CommonName = CommonName config,
                              pkix_Organization = [Organization config] \<rparr>,
                  Issuer = \<lparr> pkix_CommonName = CommonName config,
                             pkix_Organization = [Organization config] \<rparr>,
                  NotBefore = time_Now L,
                  NotAfter = time_AddDate L (time_Now L) 0 0 (ValidityDays config),
                  KeyUsage = KeyUsageCertSign OR KeyUsageCRLSign,
                  ExtKeyUsage = [],
                  BasicConstraintsValid = True,
                  IsCA = True,
                  MaxPathLen = 1,
                  MaxPathLenZero = False \<rparr>]"
proof -
  from assms obtain k' s' where
    "rsa_GenerateKey L (KeyBitSize config) = Inr k'" "rand_Int L (big_Lsh 1 128) = Inr s'"
    using GenerateRootCA_success_steps by blast
  then show ?thesis
    using templates_GenerateRootCA by blast
qed

text \<open>
  C2. In every run of \<^verbatim>\<open>GenerateRootCA\<close> that returns no error, and in every run in
  which a key and a serial number are obtained, exactly one template is built, and it is
  marked as a CA: \<^verbatim>\<open>IsCA\<close> and \<^verbatim>\<open>BasicConstraintsValid\<close> are true, \<^verbatim>\<open>KeyUsage\<close> is
  \<^verbatim>\<open>KeyUsageCertSign | KeyUsageCRLSign\<close>, so that of the nine key usages exactly these two
  are set, and the list of extended key usages is empty.
\<close>

theorem GenerateRootCA_template_is_CA:
  assumes "snd (GenerateRootCA L config) = (certBytes, key, None) \<or>
           (rsa_GenerateKey L (KeyBitSize config) = Inr k \<and>
            rand_Int L (big_Lsh 1 128) = Inr s)"
  shows "\<exists>t. templates (fst (GenerateRootCA L config)) = [t] \<and>
             IsCA t \<and> BasicConstraintsValid t \<and>
             KeyUsage t = KeyUsageCertSign OR KeyUsageCRLSign \<and>
             (\<forall>u \<in> set all_KeyUsages.
                (KeyUsage t AND u \<noteq> 0) = (u = KeyUsageCertSign \<or> u = KeyUsageCRLSign)) \<and>
             ExtKeyUsage t = []"
proof -
  have bits: "(96::int) AND 1 = 0" "(96::int) AND 2 = 0" "(96::int) AND 4 = 0"
    "(96::int) AND 8 = 0" "(96::int) AND 16 = 0" "(96::int) AND 32 = 32"
    "(96::int) AND 64 = 64" "(96::int) AND 128 = 0" "(96::int) AND 256 = 0"
    by simp_all
  from GenerateRootCA_template_built [OF assms] obtain t where
    t: "templates (fst (GenerateRootCA L config)) = [t]"
    and f: "IsCA t" "BasicConstraintsValid t" "ExtKeyUsage t = []"
      "KeyUsage t = KeyUsageCertSign OR KeyUsageCRLSign"
    by auto
  from f(4) have "\<forall>u \<in> set all_KeyUsages.
      (KeyUsage t AND u \<noteq> 0) = (u = KeyUsageCertSign \<or> u = KeyUsageCRLSign)"
    by (simp add: bits all_KeyUsages_def KeyUsageDigitalSignature_def
        KeyUsageContentCommitment_def KeyUsageKeyEncipherment_def
        KeyUsageDataEncipherment_def KeyUsageKeyAgreement_def KeyUsageCertSign_def
        KeyUsageCRLSign_def KeyUsageEncipherOnly_def KeyUsageDecipherOnly_def)
  with t f show ?thesis by blast
qed

theorem GenerateRootCA_template_is_CA_witness:
  "snd (GenerateRootCA demo_lib demo_config) = (Some [48, 130, 1, 10], Some demo_key, None) \<and>
   (\<exists>t. templates (fst (GenerateRootCA demo_lib demo_config)) = [t] \<and>
        IsCA t \<and> BasicConstraintsValid t \<and> KeyUsage t = 96 \<and> ExtKeyUsage t = [])"
proof -
  from GenerateRootCA_template_is_CA [OF disjI1, OF demo_run_succeeds] obtain t where
    "templates (fst (GenerateRootCA demo_lib demo_config)) = [t]"
    "IsCA t" "BasicConstraintsValid t" "ExtKeyUsage t = []"
    "KeyUsage t = KeyUsageCertSign OR KeyUsageCRLSign"
    by blast
  moreover have "KeyUsageCertSign OR KeyUsageCRLSign = 96"
    by (simp add: KeyUsageCertSign_def KeyUsageCRLSign_def)
  ultimately show ?thesis
    using demo_run_succeeds by auto
qed

text \<open>
  C4. In every run of \<^verbatim>\<open>GenerateRootCA\<close> that returns no error, and in every run in
  which a key and a serial number are obtained, \<^verbatim>\<open>time.Now()\<close> is called and exactly one
  template is built: its validity window starts at the value that call returned and ends
  at \<^verbatim>\<open>NotBefore.AddDate(0, 0, d)\<close>, where \<open>d\<close> is the \<^verbatim>\<open>ValidityDays\<close> of the
  configuration.
\<close>

theorem GenerateRootCA_validity_window:
  assumes "snd (GenerateRootCA L config) = (certBytes, key, None) \<or>
           (rsa_GenerateKey L (KeyBitSize config) = Inr k \<and>
            rand_Int L (big_Lsh 1 128) = Inr s)"
  shows "\<exists>t. templates (fst (GenerateRootCA L config)) = [t] \<and>
             call_time_Now \<in> set (fst (GenerateRootCA L config)) \<and>
             NotBefore t = time_Now L \<and>
             NotAfter t = time_AddDate L (NotBefore t) 0 0 (ValidityDays config)"
proof -
  from assms obtain k' s' where
    steps: "rsa_GenerateKey L (KeyBitSize config) = Inr k'"
      "rand_Int L (big_Lsh 1 128) = Inr s'"
    using GenerateRootCA_success_steps by blast
  then have "call_time_Now \<in> set (fst (GenerateRootCA L config))"
    by (simp add: GenerateRootCA_def Let_def split: sum.splits)
  moreover from GenerateRootCA_template_built [OF assms] obtain t where
    "templates (fst (GenerateRootCA L config)) = [t]"
    "NotBefore t = time_Now L"
    "NotAfter t = time_AddDate L (time_Now L) 0 0 (ValidityDays config)"
    by auto
  ultimately show ?thesis by auto
qed

theorem GenerateRootCA_validity_window_witness:
  "snd (GenerateRootCA demo_lib demo_config) = (Some [48, 130, 1, 10], Some demo_key, None) \<and>
   (\<exists>t. templates (fst (GenerateRootCA demo_lib demo_config)) = [t] \<and>
        NotBefore t = 1700000000000000000 \<and>
        NotAfter t = 1700000000000000000 + 730 * 86400000000000)"
proof -
  from GenerateRootCA_validity_window [OF disjI1, OF demo_run_succeeds] obtain t where
    "templates (fst (GenerateRootCA demo_lib demo_config)) = [t]"
    "NotBefore t = time_Now demo_lib"
    "NotAfter t = time_AddDate demo_lib (NotBefore t) 0 0 (ValidityDays demo_config)"
    by blast
  then show ?thesis
    using demo_run_succeeds by (auto simp: demo_lib_def demo_config_def)
qed

text \<open>
  C9. In every run of \<^verbatim>\<open>GenerateRootCA\<close> that returns no error, and in every run in
  which a key and a serial number are obtained, exactly one template is built, and it has
  \<^verbatim>\<open>MaxPathLen = 1\<close> and \<^verbatim>\<open>MaxPathLenZero = false\<close>.
\<close>

theorem GenerateRootCA_path_length:
  assumes "snd (GenerateRootCA L config) = (certBytes, key, None) \<or>
           (rsa_GenerateKey L (KeyBitSize config) = Inr k \<and>
            rand_Int L (big_Lsh 1 128) = Inr s)"
  shows "\<exists>t. templates (fst (GenerateRootCA L config)) = [t] \<and>
             MaxPathLen t = 1 \<and> \<not> MaxPathLenZero t"
  using GenerateRootCA_template_built [OF assms] by auto

theorem GenerateRootCA_path_length_witness:
  "snd (GenerateRootCA demo_lib demo_config) = (Some [48, 130, 1, 10], Some demo_key, None) \<and>
   (\<exists>t. templates (fst (GenerateRootCA demo_lib demo_config)) = [t] \<and>
        MaxPathLen t = 1 \<and> \<not> MaxPathLenZero t)"
  using GenerateRootCA_path_length [OF disjI1, OF demo_run_succeeds] demo_run_succeeds
  by simp

text \<open>
  C3. Take any set \<open>\<Omega>\<close> of runs of \<^verbatim>\<open>GenerateRootCA\<close> on one configuration that return no
  error (or, more generally, in which a key and a serial number are obtained), the
  library behaving as \<open>L \<omega>\<close> in run \<open>\<omega>\<close>. In each of them exactly one template
  is built, and its serial number is the value that \<^verbatim>\<open>rand.Int\<close> returned for the limit
  \<open>2 ^ 128\<close> (\<^verbatim>\<open>1 << 128\<close>), unchanged. So what the library guarantees of its draw holds of
  the serial number: under the documented contract of \<^verbatim>\<open>rand.Int(rand.Reader, max)\<close>, a
  value in \<open>[0, max)\<close> for a positive \<open>max\<close>, the serial number lies in \<open>[0, 2 ^ 128)\<close>; and
  if the draw is uniform over \<open>\<Omega>\<close>, each value of \<open>[0, 2 ^ 128)\<close> being drawn in the same
  number \<open>c\<close> of runs, then so is the serial number: each value is the serial number of
  exactly \<open>c\<close> runs.
\<close>

theorem GenerateRootCA_serial_128_bit:
  fixes L :: "'w \<Rightarrow> stdlib"
  assumes ok: "\<forall>\<omega>\<in>\<Omega>. snd (snd (snd (GenerateRootCA (L \<omega>) config))) = None \<or>
                     (\<exists>k s. rsa_GenerateKey (L \<omega>) (KeyBitSize config) = Inr k \<and>
                            rand_Int (L \<omega>) (2 ^ 128) = Inr s)"
      and range: "\<forall>\<omega>\<in>\<Omega>. \<forall>m n. 0 < m \<longrightarrow> rand_Int (L \<omega>) m = Inr n \<longrightarrow> 0 \<le> n \<and> n < m"
      and uniform: "\<forall>n. 0 \<le> n \<and> n < 2 ^ 128 \<longrightarrow>
                      card {\<omega> \<in> \<Omega>. rand_Int (L \<omega>) (2 ^ 128) = Inr n} = c"
  shows "(\<forall>\<omega>\<in>\<Omega>. \<exists>t. templates (fst (GenerateRootCA (L \<omega>) config)) = [t] \<and>
                   rand_Int (L \<omega>) (2 ^ 128) = Inr (SerialNumber t) \<and>
                   0 \<le> SerialNumber t \<and> SerialNumber t < 2 ^ 128) \<and>
         (\<forall>n. 0 \<le> n \<and> n < 2 ^ 128 \<longrightarrow>
            card {\<omega> \<in> \<Omega>. \<exists>t. templates (fst (GenerateRootCA (L \<omega>) config)) = [t] \<and>
                              SerialNumber t = n} = c)"
proof -
  have lim: "big_Lsh 1 128 = 2 ^ 128"
    by (simp add: big_Lsh_def)
  have drawn: "\<exists>t. templates (fst (GenerateRootCA (L \<omega>) config)) = [t] \<and>
                   rand_Int (L \<omega>) (2 ^ 128) = Inr (SerialNumber t)" if "\<omega> \<in> \<Omega>" for \<omega>
  proof -
    from ok [rule_format, OF that] show ?thesis
    proof (elim disjE exE conjE)
      assume "snd (snd (snd (GenerateRootCA (L \<omega>) config))) = None"
      then have "snd (GenerateRootCA (L \<omega>) config) =
          (fst (snd (GenerateRootCA (L \<omega>) config)),
           fst (snd (snd (GenerateRootCA (L \<omega>) config))), None)"
        by (metis prod.collapse)
      from GenerateRootCA_template_built [OF disjI1, OF this] show ?thesis
        by (auto simp: lim)
    next
      fix k s
      assume "rsa_GenerateKey (L \<omega>) (KeyBitSize config) = Inr k"
        and "rand_Int (L \<omega>) (2 ^ 128) = Inr s"
      then have "rsa_GenerateKey (L \<omega>) (KeyBitSize config) = Inr k \<and>
          rand_Int (L \<omega>) (big_Lsh 1 128) = Inr s"
        by (simp add: lim)
      from GenerateRootCA_template_built [OF disjI2, OF this] show ?thesis
        by (auto simp: lim)
    qed
  qed
  have first: "\<exists>t. templates (fst (GenerateRootCA (L \<omega>) config)) = [t] \<and>
                   rand_Int (L \<omega>) (2 ^ 128) = Inr (SerialNumber t) \<and>
                   0 \<le> SerialNumber t \<and> SerialNumber t < 2 ^ 128" if "\<omega> \<in> \<Omega>" for \<omega>
  proof -
    from drawn [OF that] obtain t where
      t: "templates (fst (GenerateRootCA (L \<omega>) config)) = [t]"
        "rand_Int (L \<omega>) (2 ^ 128) = Inr (SerialNumber t)"
      by blast
    have "(0::int) < 2 ^ 128" by simp
    with range that t(2) have "0 \<le> SerialNumber t \<and> SerialNumber t < 2 ^ 128"
      by blast
    with t show ?thesis by blast
  qed
  have same: "{\<omega> \<in> \<Omega>. \<exists>t. templates (fst (GenerateRootCA (L \<omega>) config)) = [t] \<and>
                           SerialNumber t = n} =
              {\<omega> \<in> \<Omega>. rand_Int (L \<omega>) (2 ^ 128) = Inr n}" for n
  proof (intro set_eqI iffI)
    fix \<omega>
    assume "\<omega> \<in> {\<omega> \<in> \<Omega>. \<exists>t. templates (fst (GenerateRootCA (L \<omega>) config)) = [t] \<and>
                             SerialNumber t = n}"
    then have w: "\<omega> \<in> \<Omega>" and "\<exists>t. templates (fst (GenerateRootCA (L \<omega>) config)) = [t] \<and>
                             SerialNumber t = n"
      by auto
    with drawn [OF w] have "rand_Int (L \<omega>) (2 ^ 128) = Inr n"
      by auto
    with w show "\<omega> \<in> {\<omega> \<in> \<Omega>. rand_Int (L \<omega>) (2 ^ 128) = Inr n}"
      by simp
  next
    fix \<omega>
    assume "\<omega> \<in> {\<omega> \<in> \<Omega>. rand_Int (L \<omega>) (2 ^ 128) = Inr n}"
    then have w: "\<omega> \<in> \<Omega>" and r: "rand_Int (L \<omega>) (2 ^ 128) = Inr n"
      by auto
    with drawn [OF w] have "\<exists>t. templates (fst (GenerateRootCA (L \<omega>) config)) = [t] \<and>
        SerialNumber t = n"
      by auto
    with w show "\<omega> \<in> {\<omega> \<in> \<Omega>. \<exists>t. templates (fst (GenerateRootCA (L \<omega>) config)) = [t] \<and>
                                SerialNumber t = n}"
      by simp
  qed
  from first uniform show ?thesis
    unfolding same by blast
qed

lemma demo_family_succeeds:
  "snd (snd (snd (GenerateRootCA (demo_family w) demo_config))) = None"
  by (simp add: GenerateRootCA_def demo_family_def demo_lib_def demo_config_def big_Lsh_def
      Let_def)

lemma demo_family_range:
  "0 < m \<Longrightarrow> rand_Int (demo_family w) m = Inr n \<Longrightarrow> 0 \<le> n \<and> n < m"
  by (auto simp: demo_family_def)

lemma demo_family_uniform:
  assumes "0 \<le> n \<and> n < 2 ^ 128"
  shows "card {w \<in> {0..<2 ^ 128}. rand_Int (demo_family w) (2 ^ 128) = Inr n} = 1"
proof -
  from assms have "{w \<in> {0..<2 ^ 128}. rand_Int (demo_family w) (2 ^ 128) = Inr n} = {n}"
    by (auto simp: demo_family_def)
  then show ?thesis by simp
qed

theorem GenerateRootCA_serial_128_bit_witness:
  "(\<exists>t. templates (fst (GenerateRootCA (demo_family 987654321) demo_config)) = [t] \<and>
        rand_Int (demo_family 987654321) (2 ^ 128) = Inr (SerialNumber t) \<and>
        0 \<le> SerialNumber t \<and> SerialNumber t < 2 ^ 128) \<and>
   card {w \<in> {0..<2 ^ 128}.
           \<exists>t. templates (fst (GenerateRootCA (demo_family w) demo_config)) = [t] \<and>
               SerialNumber t = 987654321} = 1"
proof -
  have ok: "\<forall>w\<in>{0..<2 ^ 128}.
      snd (snd (snd (GenerateRootCA (demo_family w) demo_config))) = None \<or>
      (\<exists>k s. rsa_GenerateKey (demo_family w) (KeyBitSize demo_config) = Inr k \<and>
             rand_Int (demo_family w) (2 ^ 128) = Inr s)"
    by (simp add: demo_family_succeeds)
  have range: "\<forall>w\<in>{0..<2 ^ 128}. \<forall>m n.
      0 < m \<longrightarrow> rand_Int (demo_family w) m = Inr n \<longrightarrow> 0 \<le> n \<and> n < m"
    using demo_family_range by blast
  have uniform: "\<forall>n. 0 \<le> n \<and> n < 2 ^ 128 \<longrightarrow>
      card {w \<in> {0..<2 ^ 128}. rand_Int (demo_family w) (2 ^ 128) = Inr n} = 1"
    using demo_family_uniform by blast
  have w: "(987654321::int) \<in> {0..<2 ^ 128}" and n: "(0::int) \<le> 987654321 \<and> (987654321::int) < 2 ^ 128"
    by simp_all
  from GenerateRootCA_serial_128_bit [OF ok range uniform] w n show ?thesis
    by blast
qed

section \<open>Error propagation in GenerateRootCA\<close>

lemma demo_run_small_key:
  "snd (GenerateRootCA demo_lib (demo_config\<lparr>KeyBitSize := 512\<rparr>)) =
     (None, None,
      Some (fmt_Errorf ''failed to generate RSA key: %w'' [ArgE (LibError ''key too small'')]))"
  by (simp add: GenerateRootCA_def demo_lib_def demo_config_def)

lemma demo_run_no_sign:
  "snd (GenerateRootCA demo_lib_no_sign demo_config) =
     (None, None,
      Some (fmt_Errorf ''failed to create certificate: %w'' [ArgE (LibError ''signing failed'')]))"
  by (simp add: GenerateRootCA_def demo_lib_no_sign_def demo_lib_def demo_config_def
      big_Lsh_def Let_def)

text \<open>
  C6. \<^verbatim>\<open>GenerateRootCA\<close> returns a non-nil error exactly when one of its steps fails:
  \<^verbatim>\<open>rsa.GenerateKey\<close>, \<^verbatim>\<open>rand.Int\<close>, the one call of \<^verbatim>\<open>x509.CreateCertificate\<close>, or
  \<^verbatim>\<open>x509.ParseCertificate\<close> on the bytes that call returned. With an error both
  \<^verbatim>\<open>certBytes\<close> and \<^verbatim>\<open>key\<close> are nil. Without one, all four steps were made and
  succeeded, \<^verbatim>\<open>key\<close> is the generated key and \<^verbatim>\<open>certBytes\<close> are the bytes that
  \<^verbatim>\<open>x509.CreateCertificate\<close> returned for the template, signed with that key.
\<close>

theorem GenerateRootCA_error_propagation:
  assumes "snd (GenerateRootCA L config) = (certBytes, key, err)"
  shows "((err \<noteq> None) =
            (isl (rsa_GenerateKey L (KeyBitSize config)) \<or>
             isl (rand_Int L (big_Lsh 1 128)) \<or>
             (\<exists>t pub priv.
                CreateCertificate_calls (fst (GenerateRootCA L config)) = [(t, t, pub, priv)] \<and>
                (case x509_CreateCertificate L t t pub priv of
                   Inl _ \<Rightarrow> True
                 | Inr der \<Rightarrow> isl (x509_ParseCertificate L der))))) \<and>
         (err \<noteq> None \<longrightarrow> certBytes = None \<and> key = None) \<and>
         (err = None \<longrightarrow>
            (\<exists>k s t der c.
               rsa_GenerateKey L (KeyBitSize config) = Inr k \<and>
               rand_Int L (big_Lsh 1 128) = Inr s \<and>
               CreateCertificate_calls (fst (GenerateRootCA L config)) =
                 [(t, t, PublicKey k, k)] \<and>
               SerialNumber t = s \<and>
               x509_CreateCertificate L t t (PublicKey k) k = Inr der \<and>
               x509_ParseCertificate L der = Inr c \<and>
               certBytes = Some der \<and> key = Some k))"
proof (cases "rsa_GenerateKey L (KeyBitSize config)")
  case (Inl e)
  with assms show ?thesis
    by (auto simp: GenerateRootCA_def)
next
  case key: (Inr k)
  show ?thesis
  proof (cases "rand_Int L (big_Lsh 1 128)")
    case (Inl e)
    with assms key show ?thesis
      by (auto simp: GenerateRootCA_def Let_def)
  next
    case serial: (Inr s)
    from key serial have
      "\<exists>t. CreateCertificate_calls (fst (GenerateRootCA L config)) = [(t, t, PublicKey k, k)] \<and>
           SerialNumber t = s \<and>
           snd (GenerateRootCA L config) =
             (case x509_CreateCertificate L t t (PublicKey k) k of
                Inl e \<Rightarrow>
                  (None, None,
                   Some (fmt_Errorf ''failed to create certificate: %w'' [ArgE e]))
              | Inr der \<Rightarrow>
                 (case x509_ParseCertificate L der of
                    Inl e \<Rightarrow>
                      (None, None,
                       Some (fmt_Errorf ''failed to parse generated certificate: %w''
                               [ArgE e]))
                  | Inr _ \<Rightarrow> (Some der, Some k, None)))"
      by (simp add: GenerateRootCA_def CreateCertificate_calls_def Let_def split: sum.splits)
    then obtain t where
      t: "CreateCertificate_calls (fst (GenerateRootCA L config)) = [(t, t, PublicKey k, k)]"
      and s: "SerialNumber t = s"
      and r: "snd (GenerateRootCA L config) =
             (case x509_CreateCertificate L t t (PublicKey k) k of
                Inl e \<Rightarrow>
                  (None, None,
                   Some (fmt_Errorf ''failed to create certificate: %w'' [ArgE e]))
              | Inr der \<Rightarrow>
                 (case x509_ParseCertificate L der of
                    Inl e \<Rightarrow>
                      (None, None,
                       Some (fmt_Errorf ''failed to parse generated certificate: %w''
                               [ArgE e]))
                  | Inr _ \<Rightarrow> (Some der, Some k, None)))"
      by blast
    from assms r key serial s show ?thesis
      unfolding t by (auto split: sum.splits)
  qed
qed

theorem GenerateRootCA_error_propagation_witness:
  "isl (rsa_GenerateKey demo_lib (KeyBitSize (demo_config\<lparr>KeyBitSize := 512\<rparr>))) \<and>
   (\<exists>t pub priv.
      CreateCertificate_calls (fst (GenerateRootCA demo_lib_no_sign demo_config)) =
        [(t, t, pub, priv)] \<and>
      isl (x509_CreateCertificate demo_lib_no_sign t t pub priv)) \<and>
   (\<exists>t der c.
      CreateCertificate_calls (fst (GenerateRootCA demo_lib demo_config)) =
        [(t, t, PublicKey demo_key, demo_key)] \<and>
      x509_CreateCertificate demo_lib t t (PublicKey demo_key) demo_key = Inr der \<and>
      x509_ParseCertificate demo_lib der = Inr c \<and>
      snd (GenerateRootCA demo_lib demo_config) = (Some der, Some demo_key, None))"
proof -
  have lim: "\<not> isl (rand_Int demo_lib (big_Lsh 1 128))"
    "\<not> isl (rand_Int demo_lib_no_sign (big_Lsh 1 128))"
    by (simp_all add: demo_lib_no_sign_def demo_lib_def big_Lsh_def)
  have bits: "\<not> isl (rsa_GenerateKey demo_lib_no_sign (KeyBitSize demo_config))"
    by (simp add: demo_lib_no_sign_def demo_lib_def demo_config_def)
  have none: "CreateCertificate_calls
      (fst (GenerateRootCA demo_lib (demo_config\<lparr>KeyBitSize := 512\<rparr>))) = []"
    by (simp add: CreateCertificate_calls_GenerateRootCA demo_lib_def demo_config_def)
  from GenerateRootCA_error_propagation [OF demo_run_small_key] lim none
  have a: "isl (rsa_GenerateKey demo_lib (KeyBitSize (demo_config\<lparr>KeyBitSize := 512\<rparr>)))"
    by simp
  from GenerateRootCA_error_propagation [OF demo_run_no_sign] lim bits
  have b: "\<exists>t pub priv.
      CreateCertificate_calls (fst (GenerateRootCA demo_lib_no_sign demo_config)) =
        [(t, t, pub, priv)] \<and>
      isl (x509_CreateCertificate demo_lib_no_sign t t pub priv)"
    by (auto simp: demo_lib_no_sign_def)
  from GenerateRootCA_error_propagation [OF demo_run_succeeds]
  have c: "\<exists>t der c.
      CreateCertificate_calls (fst (GenerateRootCA demo_lib demo_config)) =
        [(t, t, PublicKey demo_key, demo_key)] \<and>
      x509_CreateCertificate demo_lib t t (PublicKey demo_key) demo_key = Inr der \<and>
      x509_ParseCertificate demo_lib der = Inr c \<and>
      snd (GenerateRootCA demo_lib demo_config) = (Some der, Some demo_key, None)"
    using demo_run_succeeds by auto
  from a b c show ?thesis by blast
qed

section \<open>ExportToPEM\<close>

lemma demo_export_succeeds:
  "snd (ExportToPEM demo_lib (Some [48, 130, 1, 10]) (Some demo_key)
          ''my_ca/ca.crt'' ''my_ca/ca.key'') = None"
  by (simp add: ExportToPEM_def demo_lib_def Let_def)

text \<open>
  C5. When \<^verbatim>\<open>ExportToPEM\<close> returns nil, it has made exactly two calls of
  \<^verbatim>\<open>os.WriteFile\<close>, both successful: the first writes to \<^verbatim>\<open>certPath\<close> the PEM encoding of
  one block of type \<^verbatim>\<open>CERTIFICATE\<close> holding the certificate bytes, the second writes to
  \<^verbatim>\<open>keyPath\<close> the PEM encoding of one block of type \<^verbatim>\<open>PRIVATE KEY\<close> holding the PKCS#8
  encoding of the private key.
\<close>

theorem ExportToPEM_writes_both:
  assumes "snd (ExportToPEM L certBytes privateKey certPath keyPath) = None"
  shows "\<exists>certPEM keyBytes keyPEM.
           pem_EncodeToMemory L \<lparr> pem_Type = ''CERTIFICATE'', pem_Bytes = certBytes \<rparr> =
             Some certPEM \<and>
           x509_MarshalPKCS8PrivateKey L privateKey = Inr keyBytes \<and>
           pem_EncodeToMemory L \<lparr> pem_Type = ''PRIVATE KEY'', pem_Bytes = Some keyBytes \<rparr> =
             Some keyPEM \<and>
           map (\<lambda>(path, d, m). (path, d))
             (WriteFile_calls (fst (ExportToPEM L certBytes privateKey certPath keyPath))) =
             [(certPath, certPEM), (keyPath, keyPEM)] \<and>
           os_WriteFile L certPath certPEM (octal [0, 6, 4, 4]) = None \<and>
           os_WriteFile L keyPath keyPEM (octal [0, 6, 0, 0]) = None"
  using assms
  by (auto simp: ExportToPEM_def WriteFile_calls_def Let_def
      split: option.splits sum.splits)

theorem ExportToPEM_writes_both_witness:
  "snd (ExportToPEM demo_lib (Some [48, 130, 1, 10]) (Some demo_key)
          ''my_ca/ca.crt'' ''my_ca/ca.key'') = None \<and>
   map (\<lambda>(path, d, m). (path, d))
     (WriteFile_calls (fst (ExportToPEM demo_lib (Some [48, 130, 1, 10]) (Some demo_key)
        ''my_ca/ca.crt'' ''my_ca/ca.key''))) =
     [(''my_ca/ca.crt'', [67, 69, 82, 84, 73, 70, 73, 67, 65, 84, 69, 48, 130, 1, 10]),
      (''my_ca/ca.key'', [80, 82, 73, 86, 65, 84, 69, 32, 75, 69, 89, 48, 130, 2, 93])]"
  using ExportToPEM_writes_both [OF demo_export_succeeds] demo_export_succeeds
  by (auto simp: demo_lib_def)

text \<open>
  C7. The only calls of \<^verbatim>\<open>ExportToPEM\<close> that change the file system are to
  \<^verbatim>\<open>certPath\<close> and then to \<^verbatim>\<open>keyPath\<close> (none, the first, or both, according to where
  the run stops), and \<^verbatim>\<open>GenerateRootCA\<close> makes no such call.
\<close>

theorem ExportToPEM_only_two_files:
  "fs_paths (fst (ExportToPEM L certBytes privateKey certPath keyPath)) \<in>
     {[], [certPath], [certPath, keyPath]} \<and>
   fs_paths (fst (GenerateRootCA L config)) = []"
  by (simp add: ExportToPEM_def GenerateRootCA_def fs_paths_def Let_def
      split: option.splits sum.splits)

text \<open>
  C8. When \<^verbatim>\<open>ExportToPEM\<close> returns nil, the certificate file was written with mode
  \<^verbatim>\<open>0644\<close> (read and write for the owner, read for group and others) and the key file
  with mode \<^verbatim>\<open>0600\<close> (read and write for the owner, nothing for group and others).
\<close>

theorem ExportToPEM_file_modes:
  assumes "snd (ExportToPEM L certBytes privateKey certPath keyPath) = None"
  shows "map (\<lambda>(path, d, m). (path, m))
           (WriteFile_calls (fst (ExportToPEM L certBytes privateKey certPath keyPath))) =
           [(certPath, octal [0, 6, 4, 4]), (keyPath, octal [0, 6, 0, 0])] \<and>
         octal [0, 6, 4, 4] =
           octal [0, 4, 0, 0] OR octal [0, 2, 0, 0] OR octal [0, 0, 4, 0] OR octal [0, 0, 0, 4] \<and>
         octal [0, 6, 0, 0] = octal [0, 4, 0, 0] OR octal [0, 2, 0, 0] \<and>
         octal [0, 6, 0, 0] AND octal [0, 0, 7, 7] = 0"
proof -
  from assms have
    "map (\<lambda>(path, d, m). (path, m))
       (WriteFile_calls (fst (ExportToPEM L certBytes privateKey certPath keyPath))) =
       [(certPath, octal [0, 6, 4, 4]), (keyPath, octal [0, 6, 0, 0])]"
    by (auto simp: ExportToPEM_def WriteFile_calls_def Let_def
        split: option.splits sum.splits)
  moreover have
    "octal [0, 6, 4, 4] =
       octal [0, 4, 0, 0] OR octal [0, 2, 0, 0] OR octal [0, 0, 4, 0] OR octal [0, 0, 0, 4]"
    "octal [0, 6, 0, 0] = octal [0, 4, 0, 0] OR octal [0, 2, 0, 0]"
    "octal [0, 6, 0, 0] AND octal [0, 0, 7, 7] = 0"
    by (simp_all add: octal_def)
  ultimately show ?thesis by simp
qed

theorem ExportToPEM_file_modes_witness:
  "snd (ExportToPEM demo_lib (Some [48, 130, 1, 10]) (Some demo_key)
          ''my_ca/ca.crt'' ''my_ca/ca.key'') = None \<and>
   map (\<lambda>(path, d, m). (path, m))
     (WriteFile_calls (fst (ExportToPEM demo_lib (Some [48, 130, 1, 10]) (Some demo_key)
        ''my_ca/ca.crt'' ''my_ca/ca.key''))) =
     [(''my_ca/ca.crt'', 420), (''my_ca/ca.key'', 384)]"
  using ExportToPEM_file_modes [OF demo_export_succeeds] demo_export_succeeds
  by (simp add: octal_def)

section \<open>main\<close>

lemma promptUser_trace:
  "fst (promptUser L stdin promptText defaultValue) = [fmt_Print promptText, reader_ReadString]"
  by (simp add: promptUser_def Let_def split: prod.splits)

lemma GenerateKey_calls_simps:
  "GenerateKey_calls [] = []"
  "GenerateKey_calls (e # tr) = keygen_of e @ GenerateKey_calls tr"
  "GenerateKey_calls (tr @ tr') = GenerateKey_calls tr @ GenerateKey_calls tr'"
  by (simp_all add: GenerateKey_calls_def)

lemma fs_paths_simps:
  "fs_paths [] = []"
  "fs_paths (e # tr) = path_of e @ fs_paths tr"
  "fs_paths (tr @ tr') = fs_paths tr @ fs_paths tr'"
  by (simp_all add: fs_paths_def)

text \<open>
  C10. When the validity in days is not positive, \<^verbatim>\<open>main\<close> ends in \<^verbatim>\<open>log.Fatal\<close> or
  \<^verbatim>\<open>log.Fatalf\<close> (for an empty Common Name, or else for the validity itself) without
  having asked for a key and without having created a file or a directory.
\<close>

theorem main_rejects_nonpositive_validity:
  assumes days: "flag_days flags \<le> 0"
  shows "snd (main L flags stdin) = Exit1 \<and>
         (last (fst (main L flags stdin)) = log_Fatal ''Error: Common Name cannot be empty.'' \<or>
          last (fst (main L flags stdin)) =
            log_Fatalf ''Error: Validity days must be positive. Got %d.''
              [ArgI (flag_days flags)]) \<and>
         GenerateKey_calls (fst (main L flags stdin)) = [] \<and>
         fs_paths (fst (main L flags stdin)) = []"
proof -
  obtain t r s where
    p: "promptUser L stdin
          ''Enter Common Name (CN) for the CA (e.g., 'My Dev Root CA'): '' [] = (t, r, s)"
    by (cases "promptUser L stdin
          ''Enter Common Name (CN) for the CA (e.g., 'My Dev Root CA'): '' []") auto
  have t: "t = [fmt_Print ''Enter Common Name (CN) for the CA (e.g., 'My Dev Root CA'): '',
                reader_ReadString]"
    using promptUser_trace [of L stdin
        "''Enter Common Name (CN) for the CA (e.g., 'My Dev Root CA'): ''" "[]"] p
    by simp
  obtain t' r' s' where
    p': "promptUser L (if flag_cn flags = [] then s else stdin)
           ''Enter Organization (O) (optional, press Enter to skip): '' [] = (t', r', s')"
    by (cases "promptUser L (if flag_cn flags = [] then s else stdin)
           ''Enter Organization (O) (optional, press Enter to skip): '' []") auto
  have t': "t' = [fmt_Print ''Enter Organization (O) (optional, press Enter to skip): '',
                  reader_ReadString]"
    using promptUser_trace [of L "if flag_cn flags = [] then s else stdin"
        "''Enter Organization (O) (optional, press Enter to skip): ''" "[]"] p'
    by simp
  show ?thesis
  proof (cases "flag_cn flags = []")
    case True
    note cn = this
    show ?thesis
    proof (cases "r = []")
      case True
      with cn p t show ?thesis
        by (simp add: main_def Let_def GenerateKey_calls_simps fs_paths_simps)
    next
      case False
      with cn p t p' t' days show ?thesis
        by (cases "flag_org flags = []")
           (simp_all add: main_def Let_def GenerateKey_calls_simps fs_paths_simps)
    qed
  next
    case False
    with p' t' days show ?thesis
      by (cases "flag_org flags = []")
         (simp_all add: main_def Let_def GenerateKey_calls_simps fs_paths_simps)
  qed
qed

theorem main_rejects_nonpositive_validity_witness:
  "flag_days (demo_flags\<lparr>flag_days := 0\<rparr>) \<le> 0 \<and>
   snd (main demo_lib (demo_flags\<lparr>flag_days := 0\<rparr>) []) = Exit1 \<and>
   last (fst (main demo_lib (demo_flags\<lparr>flag_days := 0\<rparr>) [])) =
     log_Fatalf ''Error: Validity days must be positive. Got %d.'' [ArgI 0] \<and>
   GenerateKey_calls (fst (main demo_lib (demo_flags\<lparr>flag_days := 0\<rparr>) [])) = [] \<and>
   fs_paths (fst (main demo_lib (demo_flags\<lparr>flag_days := 0\<rparr>) [])) = []"
proof -
  have h: "flag_days (demo_flags\<lparr>flag_days := 0\<rparr>) \<le> 0"
    by simp
  have cn: "last (fst (main demo_lib (demo_flags\<lparr>flag_days := 0\<rparr>) [])) \<noteq>
              log_Fatal ''Error: Common Name cannot be empty.''"
    by (simp add: main_def demo_flags_def Let_def)
  from main_rejects_nonpositive_validity [OF h, of demo_lib "[]"] h cn show ?thesis
    by simp
qed

end
